theory Spec2Isabelle
  imports Main
begin

section \<open>Remote image resolution (pkg/fanal/image/remote.go)\<close>

text \<open>
  A shallow embedding of \<^verbatim>\<open>tryRemote\<close>, \<^verbatim>\<open>parsePlatform\<close> and the accessors of
  \<^verbatim>\<open>remoteImage\<close> and \<^verbatim>\<open>implicitReference\<close>. Go strings are byte strings and are
  modelled as \<^typ>\<open>string\<close>; a Go pair \<^verbatim>\<open>(value, error)\<close> is a sum with the error
  on the left; a nil pointer is \<^term>\<open>None\<close>.
\<close>

subsection \<open>Strings (package strings, fmt)\<close>

text \<open>\<^verbatim>\<open>strings.HasPrefix(s, prefix)\<close>: \<^verbatim>\<open>len(s) >= len(prefix) && s[:len(prefix)] == prefix\<close>.\<close>

definition HasPrefix :: "string \<Rightarrow> string \<Rightarrow> bool" where
  "HasPrefix s pre \<longleftrightarrow> length pre \<le> length s \<and> take (length pre) s = pre"

text \<open>\<^verbatim>\<open>strings.TrimPrefix(s, prefix)\<close>: the prefix is removed once when present.\<close>

definition TrimPrefix :: "string \<Rightarrow> string \<Rightarrow> string" where
  "TrimPrefix s pre = (if HasPrefix s pre then drop (length pre) s else s)"

subsection \<open>Values of the registry client library\<close>

text \<open>
  Errors. \<^verbatim>\<open>*remote.ErrSchema1\<close> is the one error type the code tests for with a type
  assertion; every other error of the library is \<open>ErrOther\<close> with its message.
  \<open>Errorf ctx err\<close> is \<^verbatim>\<open>xerrors.Errorf(ctx + "%w", err)\<close>: a new error value that
  wraps \<open>err\<close> behind the context \<open>ctx\<close>.
\<close>

datatype error = ErrSchema1 string | ErrOther string | Errorf string error

text \<open>
  \<^verbatim>\<open>name.Reference\<close> is implemented by \<^verbatim>\<open>name.Tag\<close> and \<^verbatim>\<open>name.Digest\<close>; both carry
  a \<^verbatim>\<open>name.Repository\<close>. The two fields of the repository hold what \<^verbatim>\<open>RegistryStr()\<close>
  and \<^verbatim>\<open>RepositoryStr()\<close> return.
\<close>

record name_Repository =
  registry :: string
  repository :: string

datatype name_Reference =
    name_Tag name_Repository string
  | name_Digest name_Repository string

fun Context :: "name_Reference \<Rightarrow> name_Repository" where
  "Context (name_Tag repo t) = repo"
| "Context (name_Digest repo d) = repo"

definition RegistryStr :: "name_Repository \<Rightarrow> string" where
  "RegistryStr ctx = registry ctx"

definition RepositoryStr :: "name_Repository \<Rightarrow> string" where
  "RepositoryStr ctx = repository ctx"

text \<open>\<^verbatim>\<open>name.DefaultRegistry\<close>, the constant of the library.\<close>

definition DefaultRegistry :: string where
  "DefaultRegistry = ''index.docker.io''"

text \<open>\<^verbatim>\<open>v1.Hash\<close> and its \<^verbatim>\<open>String()\<close>: algorithm, a colon, the hex digest.\<close>

record v1_Hash =
  Algorithm :: string
  Hex :: string

definition Hash_String :: "v1_Hash \<Rightarrow> string" where
  "Hash_String h = Algorithm h @ '':'' @ Hex h"

record v1_Platform =
  Architecture :: string
  OS :: string
  OSVersion :: string
  OSFeatures :: "string list"
  Variant :: string
  Features :: "string list"

text \<open>\<^verbatim>\<open>v1.Descriptor\<close>; its \<^verbatim>\<open>Platform\<close> is a pointer and may be nil.\<close>

record v1_Descriptor =
  MediaType :: string
  Size :: int
  Digest :: v1_Hash
  Descriptor_Platform :: "v1_Platform option"

record v1_IndexManifest =
  Manifests :: "v1_Descriptor list"

text \<open>A \<^verbatim>\<open>v1.ImageIndex\<close> is used only through \<^verbatim>\<open>IndexManifest()\<close>, which may fail.\<close>

record v1_ImageIndex =
  IndexManifest :: "error + v1_IndexManifest"

text \<open>\<^verbatim>\<open>remote.Descriptor\<close> embeds \<^verbatim>\<open>v1.Descriptor\<close>.\<close>

record remote_Descriptor = v1_Descriptor +
  Manifest :: string

record authn_Basic =
  Username :: string
  Password :: string

record authn_Bearer =
  Token :: string

datatype authn_Authenticator = AuthBasic authn_Basic | AuthBearer authn_Bearer

datatype authn_Keychain = DefaultKeychain

record tls_Config =
  InsecureSkipVerify :: bool

record http_Transport =
  TLSClientConfig :: tls_Config

datatype remote_Option =
    WithTransport http_Transport
  | WithPlatform v1_Platform
  | WithAuth authn_Authenticator
  | WithAuthFromKeychain authn_Keychain

text \<open>
  \<^verbatim>\<open>types.DockerOption\<close>. Its declaration is not part of the sources at hand; the
  fields are the options the specification lists (section 3), the credential pair
  prefixed to keep it apart from the fields of \<^verbatim>\<open>authn.Basic\<close>.
\<close>

record DockerOption =
  opt_Username :: string
  opt_Password :: string
  RegistryToken :: string
  InsecureSkipTLSVerify :: bool
  Platform :: string

subsection \<open>The identity normalizer\<close>

record implicitReference =
  ref :: name_Reference

text \<open>\<^verbatim>\<open>remoteImage\<close>; the field \<^verbatim>\<open>ref\<close> is \<open>iref\<close> here, \<open>'img\<close> is the embedded \<^verbatim>\<open>v1.Image\<close>.\<close>

record 'img remoteImage =
  name :: string
  iref :: implicitReference
  descriptor :: remote_Descriptor
  Image :: 'img

definition TagStr :: "name_Reference \<Rightarrow> string" where
  "TagStr rf = (case rf of name_Tag repo t \<Rightarrow> t | name_Digest repo d \<Rightarrow> [])"

definition TagName :: "implicitReference \<Rightarrow> string" where
  "TagName r = (case ref r of name_Tag repo t \<Rightarrow> TagStr (name_Tag repo t) | name_Digest repo d \<Rightarrow> [])"

definition RepositoryName :: "implicitReference \<Rightarrow> string" where
  "RepositoryName r =
     (let ctx = Context (ref r);
          reg = RegistryStr ctx;
          repo = RepositoryStr ctx
      in if reg \<noteq> DefaultRegistry then reg @ ''/'' @ repo
         else TrimPrefix repo ''library/'')"

definition RepoTags :: "'img remoteImage \<Rightarrow> string list" where
  "RepoTags img =
     (let tag = TagName (iref img)
      in if tag = [] then [] else [RepositoryName (iref img) @ '':'' @ tag])"

definition RepoDigests :: "'img remoteImage \<Rightarrow> string list" where
  "RepoDigests img =
     (let repoDigest = RepositoryName (iref img) @ ''@'' @ Hash_String (Digest (descriptor img))
      in [repoDigest])"

definition Name :: "'img remoteImage \<Rightarrow> string" where
  "Name img = name img"

subsection \<open>The registry client\<close>

text \<open>
  What the code calls outside this file is a parameter of the model, one field per
  function: \<^verbatim>\<open>token.GetToken\<close>, \<^verbatim>\<open>remote.Index\<close>, \<^verbatim>\<open>remote.Get\<close>,
  \<^verbatim>\<open>(*remote.Descriptor).Image\<close> and \<^verbatim>\<open>v1.ParsePlatform\<close>. The context argument of
  \<^verbatim>\<open>GetToken\<close> is left out.
\<close>

record 'img registry_client =
  GetToken :: "string \<Rightarrow> DockerOption \<Rightarrow> authn_Basic"
  remote_Index :: "name_Reference \<Rightarrow> remote_Option list \<Rightarrow> error + v1_ImageIndex"
  remote_Get :: "name_Reference \<Rightarrow> remote_Option list \<Rightarrow> error + remote_Descriptor"
  Descriptor_Image :: "remote_Descriptor \<Rightarrow> error + 'img"
  ParsePlatform :: "string \<Rightarrow> error + v1_Platform"

text \<open>
  Modelled from the spec: \<^verbatim>\<open>token.GetToken\<close> (package pkg/fanal/image/token) is not
  among the sources. Section 4.1 of the specification lets the basic credential be the
  \<^verbatim>\<open>Username\<close> and \<^verbatim>\<open>Password\<close> of the option bundle, so the lookup hands these two
  fields on.
\<close>

definition GetToken_spec :: "string \<Rightarrow> DockerOption \<Rightarrow> authn_Basic" where
  "GetToken_spec domain opt = \<lparr>Username = opt_Username opt, Password = opt_Password opt\<rparr>"

text \<open>
  The calls into the registry, in the order they are made, with their arguments:
  \<^verbatim>\<open>remote.Index(ref, options...)\<close>, \<^verbatim>\<open>remote.Get(ref, options...)\<close> and
  \<^verbatim>\<open>desc.Image()\<close>.
\<close>

datatype call =
    IndexCall name_Reference "remote_Option list"
  | GetCall name_Reference "remote_Option list"
  | ImageCall remote_Descriptor

text \<open>A Go call returns a value, returns an error, or panics.\<close>

datatype 'a outcome = Panic | Err error | Ok 'a

subsection \<open>The platform resolver\<close>

text \<open>
  \<^verbatim>\<open>parsePlatform\<close> returns \<^verbatim>\<open>(*v1.Platform, error)\<close>: \<open>Inl err\<close> is \<^verbatim>\<open>(nil, err)\<close>,
  \<open>Inr None\<close> is \<^verbatim>\<open>(nil, nil)\<close> and \<open>Inr (Some s)\<close> is \<^verbatim>\<open>(s, nil)\<close>. The first component
  lists the registry calls made. Inside the wildcard branch, \<open>Inl\<close> is an early return
  and \<open>Inr\<close> carries the platform string on to \<^verbatim>\<open>v1.ParsePlatform\<close>.
\<close>

definition parsePlatform ::
  "'img registry_client \<Rightarrow> name_Reference \<Rightarrow> string \<Rightarrow> call list \<times> (error + v1_Platform option)"
where
  "parsePlatform env rf p =
     (let (cs, wildcard) =
        (if HasPrefix p ''*/'' then
           (case remote_Index env rf [] of
              Inl err \<Rightarrow>
                (case err of
                   ErrSchema1 msg \<Rightarrow> ([IndexCall rf []], Inl (Inr None))
                 | _ \<Rightarrow> ([IndexCall rf []], Inl (Inl (Errorf ''remote index error: '' err))))
            | Inr index \<Rightarrow>
                (case IndexManifest index of
                   Inl err \<Rightarrow>
                     ([IndexCall rf []], Inl (Inl (Errorf ''remote index manifest error: '' err)))
                 | Inr m \<Rightarrow>
                     (case Manifests m of
                        [] \<Rightarrow> ([IndexCall rf []], Inl (Inr None))
                      | m0 # ms \<Rightarrow>
                          (case Descriptor_Platform m0 of
                             Some pl \<Rightarrow> ([IndexCall rf []], Inr (OS pl @ TrimPrefix p ''*''))
                           | None \<Rightarrow> ([IndexCall rf []], Inr p)))))
         else ([], Inr p))
      in case wildcard of
           Inl early \<Rightarrow> (cs, early)
         | Inr p' \<Rightarrow>
             (case ParsePlatform env p' of
                Inl err \<Rightarrow> (cs, Inl (Errorf ''platform parse error: '' err))
              | Inr platform \<Rightarrow> (cs, Inr (Some platform))))"

subsection \<open>The fetch\<close>

text \<open>
  \<^verbatim>\<open>tryRemote\<close>. \<^verbatim>\<open>remote.WithPlatform(*s)\<close> dereferences the pointer that
  \<^verbatim>\<open>parsePlatform\<close> returned; on \<^verbatim>\<open>(nil, nil)\<close> that is a nil dereference, a panic.
\<close>

definition tryRemote ::
  "'img registry_client \<Rightarrow> string \<Rightarrow> name_Reference \<Rightarrow> DockerOption
     \<Rightarrow> call list \<times> 'img remoteImage outcome"
where
  "tryRemote env imageName rf opt =
     (let remoteOpts =
            (if InsecureSkipTLSVerify opt
             then [WithTransport \<lparr>TLSClientConfig = \<lparr>InsecureSkipVerify = True\<rparr>\<rparr>]
             else []);
          (cs, platformStep) =
            (if Platform opt \<noteq> [] then
               (case parsePlatform env rf (Platform opt) of
                  (cs, Inl err) \<Rightarrow> (cs, Err err)
                | (cs, Inr None) \<Rightarrow> (cs, Panic)
                | (cs, Inr (Some s)) \<Rightarrow> (cs, Ok (remoteOpts @ [WithPlatform s])))
             else ([], Ok remoteOpts))
      in case platformStep of
           Panic \<Rightarrow> (cs, Panic)
         | Err err \<Rightarrow> (cs, Err err)
         | Ok remoteOpts \<Rightarrow>
             (let domain = RegistryStr (Context rf);
                  auth = GetToken env domain opt;
                  remoteOpts = remoteOpts @
                    [if Username auth \<noteq> [] \<and> Password auth \<noteq> [] then WithAuth (AuthBasic auth)
                     else if RegistryToken opt \<noteq> []
                       then WithAuth (AuthBearer \<lparr>Token = RegistryToken opt\<rparr>)
                     else WithAuthFromKeychain DefaultKeychain]
              in case remote_Get env rf remoteOpts of
                   Inl err \<Rightarrow> (cs @ [GetCall rf remoteOpts], Err err)
                 | Inr desc \<Rightarrow>
                     (case Descriptor_Image env desc of
                        Inl err \<Rightarrow> (cs @ [GetCall rf remoteOpts, ImageCall desc], Err err)
                      | Inr img \<Rightarrow>
                          (cs @ [GetCall rf remoteOpts, ImageCall desc],
                           Ok \<lparr>name = imageName, iref = \<lparr>ref = rf\<rparr>,
                               descriptor = desc, Image = img\<rparr>))))"

subsection \<open>A fake registry client\<close>

text \<open>
  Closed instances of the theorems below run the code against a fake client: it answers
  every index fetch, every fetch and every image materialization with the three results
  it is built from, hands the credentials of the option bundle on, and parses a platform
  string \<open>os\<close>, \<open>os/arch\<close> or \<open>os/arch/variant\<close>, as the library does for a string
  without an OS version.
\<close>

fun split_slash :: "string \<Rightarrow> string list" where
  "split_slash [] = [] # []"
| "split_slash (c # cs) =
     (if c = CHR ''/'' then [] # split_slash cs
      else (case split_slash cs of w # ws \<Rightarrow> (c # w) # ws | [] \<Rightarrow> [c] # []))"

definition fake_ParsePlatform :: "string \<Rightarrow> error + v1_Platform" where
  "fake_ParsePlatform s =
     (let platform = (\<lambda>os arch variant.
            \<lparr>Architecture = arch, OS = os, OSVersion = [], OSFeatures = [],
             Variant = variant, Features = []\<rparr>)
      in case split_slash s of
           [os] \<Rightarrow> Inr (platform os [] [])
         | [os, arch] \<Rightarrow> Inr (platform os arch [])
         | [os, arch, variant] \<Rightarrow> Inr (platform os arch variant)
         | _ \<Rightarrow> Inl (ErrOther (''too many slashes in platform spec: '' @ s)))"

definition fake_client ::
  "error + v1_ImageIndex \<Rightarrow> error + remote_Descriptor \<Rightarrow> error + nat \<Rightarrow> nat registry_client"
where
  "fake_client index desc img =
     \<lparr>GetToken = GetToken_spec,
      remote_Index = (\<lambda>rf os. index),
      remote_Get = (\<lambda>rf os. desc),
      Descriptor_Image = (\<lambda>d. img),
      ParsePlatform = fake_ParsePlatform\<rparr>"

definition fake_manifest :: "v1_Platform option \<Rightarrow> v1_Descriptor" where
  "fake_manifest pl =
     \<lparr>MediaType = ''application/vnd.oci.image.manifest.v1+json'', Size = 528,
      Digest = \<lparr>Algorithm = ''sha256'', Hex = ''0a1b''\<rparr>, Descriptor_Platform = pl\<rparr>"

definition fake_index :: "v1_Descriptor list \<Rightarrow> error + v1_ImageIndex" where
  "fake_index ms = Inr \<lparr>IndexManifest = Inr \<lparr>Manifests = ms\<rparr>\<rparr>"

definition fake_descriptor :: remote_Descriptor where
  "fake_descriptor =
     \<lparr>MediaType = ''application/vnd.oci.image.index.v1+json'', Size = 1024,
      Digest = \<lparr>Algorithm = ''sha256'', Hex = ''abcd''\<rparr>, Descriptor_Platform = None,
      Manifest = ''{}''\<rparr>"

definition linux :: "string \<Rightarrow> v1_Platform" where
  "linux arch = \<lparr>Architecture = arch, OS = ''linux'', OSVersion = [], OSFeatures = [],
                  Variant = [], Features = []\<rparr>"

definition alpine :: name_Reference where
  "alpine = name_Tag \<lparr>registry = ''index.docker.io'', repository = ''library/alpine''\<rparr> ''3.18''"

definition team_app :: name_Reference where
  "team_app = name_Digest \<lparr>registry = ''myregistry.io'', repository = ''team/app''\<rparr> ''sha256:abcd''"

definition no_options :: DockerOption where
  "no_options = \<lparr>opt_Username = [], opt_Password = [], RegistryToken = [],
                  InsecureSkipTLSVerify = False, Platform = []\<rparr>"

section \<open>Properties\<close>

subsection \<open>Strings\<close>

lemma TrimPrefix_append: "TrimPrefix (pre @ rest) pre = rest"
  by (simp add: TrimPrefix_def HasPrefix_def)

lemma TrimPrefix_absent: "\<not> HasPrefix s pre \<Longrightarrow> TrimPrefix s pre = s"
  by (simp add: TrimPrefix_def)

lemma HasPrefix_wildcard: "HasPrefix (''*/'' @ arch) ''*/''"
  by (simp add: HasPrefix_def)

lemma TrimPrefix_wildcard: "TrimPrefix (''*/'' @ arch) ''*'' = ''/'' @ arch"
  by (simp add: TrimPrefix_def HasPrefix_def)

subsection \<open>Repository names\<close>

text \<open>
  Claim C1. When the registry of a reference differs from the default registry,
  \<open>RepositoryName\<close> is the registry, a slash and the repository path. When the registry
  is the default registry, the registry is not prepended: a repository path
  \<open>library/rest\<close> gives \<open>rest\<close>, whatever \<open>rest\<close> is (the prefix goes once, a second
  \<open>library/\<close> in \<open>rest\<close> stays), and a path without that prefix is returned as it is.
  The parsed reference of \<open>docker.io/library/alpine\<close> gives \<open>alpine\<close>.
\<close>

theorem RepositoryName_default_namespace:
  "(RegistryStr (Context rf) \<noteq> DefaultRegistry \<longrightarrow>
      RepositoryName \<lparr>ref = rf\<rparr> =
        RegistryStr (Context rf) @ ''/'' @ RepositoryStr (Context rf))
   \<and> (RegistryStr (Context rf) = DefaultRegistry \<and>
        RepositoryStr (Context rf) = ''library/'' @ rest \<longrightarrow>
      RepositoryName \<lparr>ref = rf\<rparr> = rest)
   \<and> (RegistryStr (Context rf) = DefaultRegistry \<and>
        \<not> HasPrefix (RepositoryStr (Context rf)) ''library/'' \<longrightarrow>
      RepositoryName \<lparr>ref = rf\<rparr> = RepositoryStr (Context rf))
   \<and> RepositoryName
        \<lparr>ref = name_Tag \<lparr>registry = DefaultRegistry, repository = ''library/alpine''\<rparr> ''3.18''\<rparr>
      = ''alpine''"
proof -
  have other: "RegistryStr (Context rf) \<noteq> DefaultRegistry \<Longrightarrow>
      RepositoryName \<lparr>ref = rf\<rparr> =
        RegistryStr (Context rf) @ ''/'' @ RepositoryStr (Context rf)"
    by (simp add: RepositoryName_def Let_def)
  have strip: "RegistryStr (Context rf) = DefaultRegistry \<Longrightarrow>
      RepositoryStr (Context rf) = ''library/'' @ rest \<Longrightarrow>
      RepositoryName \<lparr>ref = rf\<rparr> = rest"
    using TrimPrefix_append [of "''library/''" rest]
    by (simp add: RepositoryName_def Let_def)
  have keep: "RegistryStr (Context rf) = DefaultRegistry \<Longrightarrow>
      \<not> HasPrefix (RepositoryStr (Context rf)) ''library/'' \<Longrightarrow>
      RepositoryName \<lparr>ref = rf\<rparr> = RepositoryStr (Context rf)"
    by (simp add: RepositoryName_def Let_def TrimPrefix_absent)
  have alpine: "RepositoryName
        \<lparr>ref = name_Tag \<lparr>registry = DefaultRegistry, repository = ''library/alpine''\<rparr> ''3.18''\<rparr>
      = ''alpine''"
    by (simp add: RepositoryName_def Let_def RegistryStr_def RepositoryStr_def
        TrimPrefix_def HasPrefix_def)
  from other strip keep alpine show ?thesis by blast
qed

theorem RepositoryName_default_namespace_witness:
  "RepositoryName \<lparr>ref = name_Digest \<lparr>registry = ''myregistry.io'', repository = ''team/app''\<rparr>
        ''sha256:abcd''\<rparr> = ''myregistry.io/team/app''
   \<and> RepositoryName \<lparr>ref = name_Tag \<lparr>registry = ''index.docker.io'',
        repository = ''library/library/alpine''\<rparr> ''3.18''\<rparr> = ''library/alpine''
   \<and> RepositoryName \<lparr>ref = name_Tag \<lparr>registry = ''index.docker.io'',
        repository = ''bitnami/redis''\<rparr> ''7''\<rparr> = ''bitnami/redis''"
  using
    RepositoryName_default_namespace [of "name_Digest \<lparr>registry = ''myregistry.io'',
        repository = ''team/app''\<rparr> ''sha256:abcd''" "[]"]
    RepositoryName_default_namespace [of "name_Tag \<lparr>registry = ''index.docker.io'',
        repository = ''library/library/alpine''\<rparr> ''3.18''" "''library/alpine''"]
    RepositoryName_default_namespace [of "name_Tag \<lparr>registry = ''index.docker.io'',
        repository = ''bitnami/redis''\<rparr> ''7''" "[]"]
  by (simp add: RegistryStr_def RepositoryStr_def DefaultRegistry_def HasPrefix_def)

subsection \<open>The runs of the platform resolver\<close>

lemma parsePlatform_plain:
  "\<not> HasPrefix p ''*/'' \<Longrightarrow>
   parsePlatform env rf p =
     ([], case ParsePlatform env p of
            Inl err \<Rightarrow> Inl (Errorf ''platform parse error: '' err)
          | Inr platform \<Rightarrow> Inr (Some platform))"
  by (simp add: parsePlatform_def split: sum.splits)

lemma parsePlatform_schema1:
  "HasPrefix p ''*/'' \<Longrightarrow> remote_Index env rf [] = Inl (ErrSchema1 msg) \<Longrightarrow>
   parsePlatform env rf p = ([IndexCall rf []], Inr None)"
  by (simp add: parsePlatform_def)

lemma parsePlatform_index_error:
  "HasPrefix p ''*/'' \<Longrightarrow> remote_Index env rf [] = Inl err \<Longrightarrow>
   (case err of ErrSchema1 msg \<Rightarrow> False | _ \<Rightarrow> True) \<Longrightarrow>
   parsePlatform env rf p = ([IndexCall rf []], Inl (Errorf ''remote index error: '' err))"
  by (simp add: parsePlatform_def split: error.splits)

lemma parsePlatform_manifest_error:
  "HasPrefix p ''*/'' \<Longrightarrow> remote_Index env rf [] = Inr index \<Longrightarrow>
   IndexManifest index = Inl err \<Longrightarrow>
   parsePlatform env rf p =
     ([IndexCall rf []], Inl (Errorf ''remote index manifest error: '' err))"
  by (simp add: parsePlatform_def)

lemma parsePlatform_empty_index:
  "HasPrefix p ''*/'' \<Longrightarrow> remote_Index env rf [] = Inr index \<Longrightarrow>
   IndexManifest index = Inr m \<Longrightarrow> Manifests m = [] \<Longrightarrow>
   parsePlatform env rf p = ([IndexCall rf []], Inr None)"
  by (simp add: parsePlatform_def)

lemma parsePlatform_first_os:
  "HasPrefix p ''*/'' \<Longrightarrow> remote_Index env rf [] = Inr index \<Longrightarrow>
   IndexManifest index = Inr m \<Longrightarrow> Manifests m = m0 # ms \<Longrightarrow>
   Descriptor_Platform m0 = Some pl \<Longrightarrow>
   parsePlatform env rf p =
     ([IndexCall rf []],
      case ParsePlatform env (OS pl @ TrimPrefix p ''*'') of
        Inl err \<Rightarrow> Inl (Errorf ''platform parse error: '' err)
      | Inr platform \<Rightarrow> Inr (Some platform))"
  by (simp add: parsePlatform_def split: sum.splits)

lemma parsePlatform_nil_platform:
  "HasPrefix p ''*/'' \<Longrightarrow> remote_Index env rf [] = Inr index \<Longrightarrow>
   IndexManifest index = Inr m \<Longrightarrow> Manifests m = m0 # ms \<Longrightarrow>
   Descriptor_Platform m0 = None \<Longrightarrow>
   parsePlatform env rf p =
     ([IndexCall rf []],
      case ParsePlatform env p of
        Inl err \<Rightarrow> Inl (Errorf ''platform parse error: '' err)
      | Inr platform \<Rightarrow> Inr (Some platform))"
  by (simp add: parsePlatform_def split: sum.splits)

lemma parsePlatform_calls:
  "fst (parsePlatform env rf p) = (if HasPrefix p ''*/'' then [IndexCall rf []] else [])"
  by (simp add: parsePlatform_def split: sum.splits error.splits list.splits option.splits)

lemma parsePlatform_errors:
  assumes "snd (parsePlatform env rf p) = Inl e"
  shows "(\<exists>e'. e = Errorf ''remote index error: '' e' \<and> remote_Index env rf [] = Inl e')
       \<or> (\<exists>index e'. e = Errorf ''remote index manifest error: '' e'
             \<and> remote_Index env rf [] = Inr index \<and> IndexManifest index = Inl e')
       \<or> (\<exists>p' e'. e = Errorf ''platform parse error: '' e' \<and> ParsePlatform env p' = Inl e')"
  using assms
  by (auto simp add: parsePlatform_def split: if_splits sum.splits error.splits list.splits
      option.splits)


subsection \<open>The runs of the fetch\<close>

lemma tryRemote_platform_error:
  "Platform opt \<noteq> [] \<Longrightarrow> parsePlatform env rf (Platform opt) = (cs, Inl err) \<Longrightarrow>
   tryRemote env imageName rf opt = (cs, Err err)"
  by (simp add: tryRemote_def Let_def)

lemma tryRemote_no_constraint:
  "Platform opt \<noteq> [] \<Longrightarrow> parsePlatform env rf (Platform opt) = (cs, Inr None) \<Longrightarrow>
   tryRemote env imageName rf opt = (cs, Panic)"
  by (simp add: tryRemote_def Let_def)

lemma tryRemote_cases [consumes 0, case_names platform_error no_constraint fetch]:
  fixes env :: "'img registry_client"
  defines "tls \<equiv> \<lambda>opt. (if InsecureSkipTLSVerify opt
             then [WithTransport \<lparr>TLSClientConfig = \<lparr>InsecureSkipVerify = True\<rparr>\<rparr>]
             else [])"
  defines "cred \<equiv> \<lambda>rf opt. (let auth = GetToken env (RegistryStr (Context rf)) opt
            in if Username auth \<noteq> [] \<and> Password auth \<noteq> [] then WithAuth (AuthBasic auth)
               else if RegistryToken opt \<noteq> []
                 then WithAuth (AuthBearer \<lparr>Token = RegistryToken opt\<rparr>)
               else WithAuthFromKeychain DefaultKeychain)"
  obtains
    (platform_error) cs err where
      "Platform opt \<noteq> []" "parsePlatform env rf (Platform opt) = (cs, Inl err)"
      "tryRemote env imageName rf opt = (cs, Err err)"
  | (no_constraint) cs where
      "Platform opt \<noteq> []" "parsePlatform env rf (Platform opt) = (cs, Inr None)"
      "tryRemote env imageName rf opt = (cs, Panic)"
  | (fetch) cs pre where
      "Platform opt = [] \<and> cs = [] \<and> pre = tls opt
       \<or> (\<exists>s. Platform opt \<noteq> [] \<and> parsePlatform env rf (Platform opt) = (cs, Inr (Some s))
              \<and> pre = tls opt @ [WithPlatform s])"
      "tryRemote env imageName rf opt =
         (case remote_Get env rf (pre @ [cred rf opt]) of
            Inl err \<Rightarrow> (cs @ [GetCall rf (pre @ [cred rf opt])], Err err)
          | Inr desc \<Rightarrow>
              (case Descriptor_Image env desc of
                 Inl err \<Rightarrow> (cs @ [GetCall rf (pre @ [cred rf opt]), ImageCall desc], Err err)
               | Inr img \<Rightarrow>
                   (cs @ [GetCall rf (pre @ [cred rf opt]), ImageCall desc],
                    Ok \<lparr>name = imageName, iref = \<lparr>ref = rf\<rparr>,
                        descriptor = desc, Image = img\<rparr>)))"
proof (cases "Platform opt = []")
  case True
  have "tryRemote env imageName rf opt =
         (case remote_Get env rf (tls opt @ [cred rf opt]) of
            Inl err \<Rightarrow> ([] @ [GetCall rf (tls opt @ [cred rf opt])], Err err)
          | Inr desc \<Rightarrow>
              (case Descriptor_Image env desc of
                 Inl err \<Rightarrow> ([] @ [GetCall rf (tls opt @ [cred rf opt]), ImageCall desc], Err err)
               | Inr img \<Rightarrow>
                   ([] @ [GetCall rf (tls opt @ [cred rf opt]), ImageCall desc],
                    Ok \<lparr>name = imageName, iref = \<lparr>ref = rf\<rparr>,
                        descriptor = desc, Image = img\<rparr>)))"
    using True by (simp add: tryRemote_def Let_def tls_def cred_def cong: sum.case_cong)
  with True show ?thesis using fetch [of "[]" "tls opt"] by blast
next
  case False
  obtain cs r where pp: "parsePlatform env rf (Platform opt) = (cs, r)"
    by (cases "parsePlatform env rf (Platform opt)")
  show ?thesis
  proof (cases r)
    case (Inl err)
    with False pp show ?thesis
      using platform_error tryRemote_platform_error by blast
  next
    case (Inr so)
    show ?thesis
    proof (cases so)
      case None
      with False pp Inr show ?thesis
        using no_constraint tryRemote_no_constraint by blast
    next
      case (Some s)
      have "tryRemote env imageName rf opt =
         (case remote_Get env rf ((tls opt @ [WithPlatform s]) @ [cred rf opt]) of
            Inl err \<Rightarrow> (cs @ [GetCall rf ((tls opt @ [WithPlatform s]) @ [cred rf opt])], Err err)
          | Inr desc \<Rightarrow>
              (case Descriptor_Image env desc of
                 Inl err \<Rightarrow> (cs @ [GetCall rf ((tls opt @ [WithPlatform s]) @ [cred rf opt]),
                    ImageCall desc], Err err)
               | Inr img \<Rightarrow>
                   (cs @ [GetCall rf ((tls opt @ [WithPlatform s]) @ [cred rf opt]), ImageCall desc],
                    Ok \<lparr>name = imageName, iref = \<lparr>ref = rf\<rparr>,
                        descriptor = desc, Image = img\<rparr>)))"
        using False pp Inr Some by (simp add: tryRemote_def Let_def tls_def cred_def cong: sum.case_cong)
      with False pp Inr Some show ?thesis
        using fetch [of cs "tls opt @ [WithPlatform s]"] by blast
    qed
  qed
qed

lemma tryRemote_fetch_shape:
  assumes "tryRemote env imageName rf opt =
         (case remote_Get env rf opts of
            Inl err \<Rightarrow> (cs @ [GetCall rf opts], Err err)
          | Inr desc \<Rightarrow>
              (case Descriptor_Image env desc of
                 Inl err \<Rightarrow> (cs @ [GetCall rf opts, ImageCall desc], Err err)
               | Inr img \<Rightarrow>
                   (cs @ [GetCall rf opts, ImageCall desc],
                    Ok \<lparr>name = imageName, iref = \<lparr>ref = rf\<rparr>,
                        descriptor = desc, Image = img\<rparr>)))"
  shows "(fst (tryRemote env imageName rf opt) = cs @ [GetCall rf opts]
          \<or> (\<exists>desc. fst (tryRemote env imageName rf opt) = cs @ [GetCall rf opts, ImageCall desc]))
       \<and> snd (tryRemote env imageName rf opt) =
           (case remote_Get env rf opts of
              Inl err \<Rightarrow> Err err
            | Inr desc \<Rightarrow>
               (case Descriptor_Image env desc of
                  Inl err \<Rightarrow> Err err
                | Inr img \<Rightarrow> Ok \<lparr>name = imageName, iref = \<lparr>ref = rf\<rparr>,
                                descriptor = desc, Image = img\<rparr>))"
  unfolding assms by (simp split: sum.splits)

lemma tryRemote_fetch_run:
  fixes env :: "'img registry_client"
  assumes "Platform opt = [] \<and> cs = [] \<and> pl = []
     \<or> Platform opt \<noteq> [] \<and> parsePlatform env rf (Platform opt) = (cs, Inr (Some s))
        \<and> pl = [WithPlatform s]"
    and "opts =
       (if InsecureSkipTLSVerify opt
        then [WithTransport \<lparr>TLSClientConfig = \<lparr>InsecureSkipVerify = True\<rparr>\<rparr>] else [])
       @ pl @
       [let auth = GetToken env (RegistryStr (Context rf)) opt
        in if Username auth \<noteq> [] \<and> Password auth \<noteq> [] then WithAuth (AuthBasic auth)
           else if RegistryToken opt \<noteq> []
             then WithAuth (AuthBearer \<lparr>Token = RegistryToken opt\<rparr>)
           else WithAuthFromKeychain DefaultKeychain]"
  shows "tryRemote env imageName rf opt =
     (case remote_Get env rf opts of
        Inl err \<Rightarrow> (cs @ [GetCall rf opts], Err err)
      | Inr desc \<Rightarrow>
          (case Descriptor_Image env desc of
             Inl err \<Rightarrow> (cs @ [GetCall rf opts, ImageCall desc], Err err)
           | Inr img \<Rightarrow>
               (cs @ [GetCall rf opts, ImageCall desc],
                Ok \<lparr>name = imageName, iref = \<lparr>ref = rf\<rparr>,
                    descriptor = desc, Image = img\<rparr>)))"
  using assms(1)
proof (elim disjE conjE)
  assume "Platform opt = []" "cs = []" "pl = []"
  then show ?thesis
    unfolding assms(2) by (simp add: tryRemote_def Let_def cong: sum.case_cong)
next
  assume "Platform opt \<noteq> []" "parsePlatform env rf (Platform opt) = (cs, Inr (Some s))"
    "pl = [WithPlatform s]"
  then show ?thesis
    unfolding assms(2) by (simp add: tryRemote_def Let_def cong: sum.case_cong)
qed

lemma tryRemote_platform_options:
  fixes env :: "'img registry_client"
  assumes "Platform opt = [] \<or> (\<exists>s. snd (parsePlatform env rf (Platform opt)) = Inr (Some s))"
  shows "\<exists>opts tl.
      fst (tryRemote env imageName rf opt) =
        (if Platform opt = [] then [] else fst (parsePlatform env rf (Platform opt)))
          @ GetCall rf opts # tl
    \<and> (tl = [] \<or> (\<exists>desc. tl = [ImageCall desc]))
    \<and> (\<forall>pl. WithPlatform pl \<in> set opts \<longleftrightarrow>
          Platform opt \<noteq> [] \<and> snd (parsePlatform env rf (Platform opt)) = Inr (Some pl))"
proof (cases rule: tryRemote_cases [of opt env rf imageName])
  case (platform_error cs err)
  with assms show ?thesis by simp
next
  case (no_constraint cs)
  with assms show ?thesis by simp
next
  case (fetch cs pre)
  let ?cred = "let auth = GetToken env (RegistryStr (Context rf)) opt
               in if Username auth \<noteq> [] \<and> Password auth \<noteq> []
                  then WithAuth (AuthBasic auth)
                  else if RegistryToken opt \<noteq> []
                       then WithAuth (AuthBearer \<lparr>Token = RegistryToken opt\<rparr>)
                       else WithAuthFromKeychain DefaultKeychain"
  from fetch(1) have cs: "cs = (if Platform opt = [] then [] else fst (parsePlatform env rf (Platform opt)))"
    by auto
  from fetch(1) have pre: "\<forall>pl. WithPlatform pl \<in> set pre \<longleftrightarrow>
          Platform opt \<noteq> [] \<and> snd (parsePlatform env rf (Platform opt)) = Inr (Some pl)"
    by auto
  have "\<forall>pl. WithPlatform pl \<noteq> ?cred"
    by (simp add: Let_def)
  with pre have opts: "\<forall>pl. WithPlatform pl \<in> set (pre @ [?cred]) \<longleftrightarrow>
          Platform opt \<noteq> [] \<and> snd (parsePlatform env rf (Platform opt)) = Inr (Some pl)"
    by auto
  from tryRemote_fetch_shape [OF fetch(2)]
  have "\<exists>tl. fst (tryRemote env imageName rf opt) = cs @ GetCall rf (pre @ [?cred]) # tl
      \<and> (tl = [] \<or> (\<exists>desc. tl = [ImageCall desc]))"
    by auto
  with cs opts show ?thesis by blast
qed

lemma tryRemote_platform_failure:
  fixes env :: "'img registry_client"
  assumes "Platform opt \<noteq> []" and "\<forall>s. snd (parsePlatform env rf (Platform opt)) \<noteq> Inr (Some s)"
  shows "tryRemote env imageName rf opt =
     (fst (parsePlatform env rf (Platform opt)),
      case snd (parsePlatform env rf (Platform opt)) of
        Inl err \<Rightarrow> Err err | Inr s \<Rightarrow> Panic)"
proof (cases rule: tryRemote_cases [of opt env rf imageName])
  case (platform_error cs err)
  then show ?thesis by simp
next
  case (no_constraint cs)
  then show ?thesis by simp
next
  case (fetch cs pre)
  with assms show ?thesis by auto
qed

lemmas fake_simps = tryRemote_def parsePlatform_def HasPrefix_def TrimPrefix_def
  fake_client_def fake_index_def fake_manifest_def fake_ParsePlatform_def
  no_options_def GetToken_spec_def linux_def Let_def

text \<open>
  The fetch has no branch for the absent constraint: a wildcard platform against an image
  whose index fetch fails with the legacy schema error ends in the nil dereference.
\<close>

lemma tryRemote_legacy_schema_panics:
  "tryRemote (fake_client (Inl (ErrSchema1 ''unsupported MediaType'')) (Inr fake_descriptor) (Inr 7))
      ''alpine:3.18'' alpine (no_options \<lparr>Platform := ''*/amd64''\<rparr>)
   = ([IndexCall alpine []], Panic)"
  by (simp add: fake_simps)

subsection \<open>Empty platform\<close>

text \<open>
  Claim C7. When the \<open>Platform\<close> option is the empty string, the fetch makes no index
  call (the calls are one \<^verbatim>\<open>remote.Get\<close> and, after it succeeded, \<^verbatim>\<open>desc.Image\<close>), the
  options given to \<^verbatim>\<open>remote.Get\<close> hold no platform constraint, and the outcome is the one
  of these two calls: no error and no panic comes from platform handling.
\<close>

theorem tryRemote_empty_platform:
  assumes "Platform opt = []"
  shows "\<exists>opts.
      (\<forall>pl. WithPlatform pl \<notin> set opts)
    \<and> (fst (tryRemote env imageName rf opt) = [GetCall rf opts]
        \<or> (\<exists>desc. fst (tryRemote env imageName rf opt) = [GetCall rf opts, ImageCall desc]))
    \<and> snd (tryRemote env imageName rf opt) =
        (case remote_Get env rf opts of
           Inl err \<Rightarrow> Err err
         | Inr desc \<Rightarrow>
             (case Descriptor_Image env desc of
                Inl err \<Rightarrow> Err err
              | Inr img \<Rightarrow> Ok \<lparr>name = imageName, iref = \<lparr>ref = rf\<rparr>,
                                descriptor = desc, Image = img\<rparr>))"
proof (cases rule: tryRemote_cases [of opt env rf imageName])
  case (platform_error cs err)
  with assms show ?thesis by simp
next
  case (no_constraint cs)
  with assms show ?thesis by simp
next
  case (fetch cs pre)
  from fetch(1) assms have cs: "cs = []" and pre: "\<forall>pl. WithPlatform pl \<notin> set pre"
    by auto
  let ?opts = "pre @ [let auth = GetToken env (RegistryStr (Context rf)) opt
               in if Username auth \<noteq> [] \<and> Password auth \<noteq> []
                  then WithAuth (AuthBasic auth)
                  else if RegistryToken opt \<noteq> []
                       then WithAuth (AuthBearer \<lparr>Token = RegistryToken opt\<rparr>)
                       else WithAuthFromKeychain DefaultKeychain]"
  have free: "\<forall>pl. WithPlatform pl \<notin> set ?opts"
    using pre by (simp add: Let_def)
  from tryRemote_fetch_shape [OF fetch(2)] cs free show ?thesis
    by (intro exI [of _ ?opts]) simp
qed

theorem tryRemote_empty_platform_witness:
  "tryRemote (fake_client (Inl (ErrOther ''unused'')) (Inr fake_descriptor) (Inr 7)) ''alpine:3.18''
      alpine no_options
   = ([GetCall alpine [WithAuthFromKeychain DefaultKeychain], ImageCall fake_descriptor],
      Ok \<lparr>name = ''alpine:3.18'', iref = \<lparr>ref = alpine\<rparr>, descriptor = fake_descriptor,
          Image = 7\<rparr>)
   \<and> (\<exists>opts. (\<forall>pl. WithPlatform pl \<notin> set opts)
        \<and> fst (tryRemote (fake_client (Inl (ErrOther ''unused'')) (Inr fake_descriptor) (Inr 7))
              ''alpine:3.18'' alpine no_options) = [GetCall alpine opts, ImageCall fake_descriptor])"
proof -
  let ?env = "fake_client (Inl (ErrOther ''unused'')) (Inr fake_descriptor) (Inr 7)"
  have p: "Platform no_options = []"
    by (simp add: no_options_def)
  have run: "tryRemote ?env ''alpine:3.18'' alpine no_options
     = ([GetCall alpine [WithAuthFromKeychain DefaultKeychain], ImageCall fake_descriptor],
      Ok \<lparr>name = ''alpine:3.18'', iref = \<lparr>ref = alpine\<rparr>, descriptor = fake_descriptor,
          Image = 7\<rparr>)"
    by (simp add: tryRemote_def fake_client_def no_options_def GetToken_spec_def Let_def)
  from tryRemote_empty_platform [OF p, of ?env "''alpine:3.18''" alpine] run
  show ?thesis by auto
qed

subsection \<open>Wildcard platforms\<close>

text \<open>
  Claim C3, as amended. For a wildcard input \<open>*/arch\<close>, when the index is fetched, its
  manifest list is not empty and the first entry carries a platform record, the
  resolver parses the first entry's OS followed by \<open>/arch\<close>: the other entries play no
  part. Against an index whose first entry has OS \<open>linux\<close>, \<open>*/arm64\<close> resolves to what
  \<open>linux/arm64\<close> parses to.
\<close>

theorem parsePlatform_wildcard_first_os:
  assumes "remote_Index env rf [] = Inr index" and "IndexManifest index = Inr m"
    and "Manifests m = m0 # ms" and "Descriptor_Platform m0 = Some pl"
  shows "parsePlatform env rf (''*/'' @ arch) =
     ([IndexCall rf []],
      case ParsePlatform env (OS pl @ ''/'' @ arch) of
        Inl err \<Rightarrow> Inl (Errorf ''platform parse error: '' err)
      | Inr platform \<Rightarrow> Inr (Some platform))"
  using parsePlatform_first_os [OF HasPrefix_wildcard assms, of arch]
  by (simp only: TrimPrefix_wildcard)

theorem parsePlatform_wildcard_first_os_witness:
  "parsePlatform
     (fake_client
        (fake_index [fake_manifest (Some (linux ''amd64'')),
                     fake_manifest (Some ((linux ''arm64'') \<lparr>OS := ''windows''\<rparr>))])
        (Inr fake_descriptor) (Inr 7))
     alpine ''*/arm64''
   = ([IndexCall alpine []], Inr (Some (linux ''arm64'')))"
proof -
  let ?ms = "[fake_manifest (Some (linux ''amd64'')),
              fake_manifest (Some ((linux ''arm64'') \<lparr>OS := ''windows''\<rparr>))]"
  let ?env = "fake_client (fake_index ?ms) (Inr fake_descriptor) (Inr 7)"
  have 1: "remote_Index ?env alpine [] = Inr \<lparr>IndexManifest = Inr \<lparr>Manifests = ?ms\<rparr>\<rparr>"
    by (simp add: fake_client_def fake_index_def)
  have 2: "IndexManifest \<lparr>IndexManifest = Inr \<lparr>Manifests = ?ms\<rparr>\<rparr> = Inr \<lparr>Manifests = ?ms\<rparr>"
    by simp
  have 3: "Manifests \<lparr>Manifests = ?ms\<rparr> = fake_manifest (Some (linux ''amd64'')) #
      [fake_manifest (Some ((linux ''arm64'') \<lparr>OS := ''windows''\<rparr>))]"
    by simp
  have 4: "Descriptor_Platform (fake_manifest (Some (linux ''amd64''))) = Some (linux ''amd64'')"
    by (simp add: fake_manifest_def)
  have 5: "ParsePlatform ?env (OS (linux ''amd64'') @ ''/'' @ ''arm64'') = Inr (linux ''arm64'')"
    by (simp add: fake_client_def fake_ParsePlatform_def linux_def)
  from parsePlatform_wildcard_first_os [OF 1 2 3 4, of "''arm64''"] 5
  show ?thesis by simp
qed

text \<open>
  Claim C3 as it is written asks for the substitution whenever the manifest list is not
  empty. An index whose first entry has no platform record is resolved to the literal
  OS \<open>*\<close>, although a later entry names \<open>linux\<close>.
\<close>

theorem parsePlatform_wildcard_counterexample:
  "Descriptor_Platform (hd [fake_manifest None, fake_manifest (Some (linux ''arm64''))]) = None
   \<and> parsePlatform
       (fake_client (fake_index [fake_manifest None, fake_manifest (Some (linux ''arm64''))])
          (Inr fake_descriptor) (Inr 7))
       alpine ''*/arm64''
     = ([IndexCall alpine []],
        Inr (Some \<lparr>Architecture = ''arm64'', OS = ''*'', OSVersion = [], OSFeatures = [],
                   Variant = [], Features = []\<rparr>))"
  by (simp add: parsePlatform_def HasPrefix_def fake_client_def fake_index_def
      fake_manifest_def fake_ParsePlatform_def)

text \<open>
  Claim C4. For a wildcard input, an index fetch that fails with the legacy schema error
  and an index with an empty manifest list both give no constraint and no error. Any
  other failure of the index fetch is returned as an error, wrapped behind the context
  of the operation: an error of \<^verbatim>\<open>remote.Index\<close> other than the legacy schema error
  behind \<open>remote index error\<close>, and every error of \<^verbatim>\<open>index.IndexManifest\<close> behind
  \<open>remote index manifest error\<close>.
\<close>

theorem parsePlatform_not_multi_arch:
  assumes "HasPrefix p ''*/''"
  shows "(remote_Index env rf [] = Inl (ErrSchema1 msg) \<longrightarrow>
            parsePlatform env rf p = ([IndexCall rf []], Inr None))
       \<and> (remote_Index env rf [] = Inr index \<and> IndexManifest index = Inr m \<and> Manifests m = [] \<longrightarrow>
            parsePlatform env rf p = ([IndexCall rf []], Inr None))
       \<and> (remote_Index env rf [] = Inl err \<and> (\<forall>msg'. err \<noteq> ErrSchema1 msg') \<longrightarrow>
            parsePlatform env rf p =
              ([IndexCall rf []], Inl (Errorf ''remote index error: '' err)))
       \<and> (remote_Index env rf [] = Inr index \<and> IndexManifest index = Inl err \<longrightarrow>
            parsePlatform env rf p =
              ([IndexCall rf []], Inl (Errorf ''remote index manifest error: '' err)))"
proof -
  have other: "(case err of ErrSchema1 msg' \<Rightarrow> False | _ \<Rightarrow> True)"
    if "\<forall>msg'. err \<noteq> ErrSchema1 msg'"
    using that by (cases err) simp_all
  show ?thesis
    using assms parsePlatform_schema1 [of p env rf msg]
      parsePlatform_empty_index [of p env rf index m]
      parsePlatform_index_error [of p env rf err] other
      parsePlatform_manifest_error [of p env rf index err]
    by blast
qed

theorem parsePlatform_not_multi_arch_witness:
  "parsePlatform (fake_client (Inl (ErrSchema1 ''unsupported MediaType'')) (Inr fake_descriptor) (Inr 7))
       alpine ''*/amd64'' = ([IndexCall alpine []], Inr None)
   \<and> parsePlatform (fake_client (fake_index []) (Inr fake_descriptor) (Inr 7))
       alpine ''*/amd64'' = ([IndexCall alpine []], Inr None)
   \<and> parsePlatform (fake_client (Inl (ErrOther ''UNAUTHORIZED'')) (Inr fake_descriptor) (Inr 7))
       alpine ''*/amd64''
     = ([IndexCall alpine []], Inl (Errorf ''remote index error: '' (ErrOther ''UNAUTHORIZED'')))
   \<and> parsePlatform
       (fake_client (Inr \<lparr>IndexManifest = Inl (ErrOther ''unexpected end of JSON input'')\<rparr>)
          (Inr fake_descriptor) (Inr 7))
       alpine ''*/amd64''
     = ([IndexCall alpine []],
        Inl (Errorf ''remote index manifest error: '' (ErrOther ''unexpected end of JSON input'')))"
proof -
  have p: "HasPrefix ''*/amd64'' ''*/''"
    by (simp add: HasPrefix_def)
  show ?thesis
    using
      parsePlatform_not_multi_arch [OF p,
        of "fake_client (Inl (ErrSchema1 ''unsupported MediaType'')) (Inr fake_descriptor) (Inr 7)"
           alpine "''unsupported MediaType''"]
      parsePlatform_not_multi_arch [OF p,
        of "fake_client (fake_index []) (Inr fake_descriptor) (Inr 7)"
           alpine _ "\<lparr>IndexManifest = Inr \<lparr>Manifests = []\<rparr>\<rparr>" "\<lparr>Manifests = []\<rparr>"]
      parsePlatform_not_multi_arch [OF p,
        of "fake_client (Inl (ErrOther ''UNAUTHORIZED'')) (Inr fake_descriptor) (Inr 7)"
           alpine _ _ _ "ErrOther ''UNAUTHORIZED''"]
      parsePlatform_not_multi_arch [OF p,
        of "fake_client (Inr \<lparr>IndexManifest = Inl (ErrOther ''unexpected end of JSON input'')\<rparr>)
              (Inr fake_descriptor) (Inr 7)"
           alpine _ "\<lparr>IndexManifest = Inl (ErrOther ''unexpected end of JSON input'')\<rparr>" _
           "ErrOther ''unexpected end of JSON input''"]
    by (simp add: fake_client_def fake_index_def)
qed

text \<open>
  Claim C9. For a wildcard input, when the manifest list is not empty and its first entry
  has no platform record, nothing is substituted: the input string itself goes to the
  platform parser, and the result is what the parser makes of it, an error or a
  platform, never the absent constraint.
\<close>

theorem parsePlatform_first_entry_without_platform:
  assumes "HasPrefix p ''*/''" and "remote_Index env rf [] = Inr index"
    and "IndexManifest index = Inr m" and "Manifests m = m0 # ms"
    and "Descriptor_Platform m0 = None"
  shows "parsePlatform env rf p =
     ([IndexCall rf []],
      case ParsePlatform env p of
        Inl err \<Rightarrow> Inl (Errorf ''platform parse error: '' err)
      | Inr platform \<Rightarrow> Inr (Some platform))
     \<and> snd (parsePlatform env rf p) \<noteq> Inr None"
  using parsePlatform_nil_platform [OF assms]
  by (simp split: sum.splits)

theorem parsePlatform_first_entry_without_platform_witness:
  "parsePlatform
     (fake_client (fake_index [fake_manifest None, fake_manifest (Some (linux ''amd64''))])
        (Inr fake_descriptor) (Inr 7))
     team_app ''*/amd64''
   = ([IndexCall team_app []],
      Inr (Some \<lparr>Architecture = ''amd64'', OS = ''*'', OSVersion = [], OSFeatures = [],
                 Variant = [], Features = []\<rparr>))"
proof -
  let ?ms = "[fake_manifest None, fake_manifest (Some (linux ''amd64''))]"
  let ?env = "fake_client (fake_index ?ms) (Inr fake_descriptor) (Inr 7)"
  have 0: "HasPrefix ''*/amd64'' ''*/''"
    by (simp add: HasPrefix_def)
  have 1: "remote_Index ?env team_app [] = Inr \<lparr>IndexManifest = Inr \<lparr>Manifests = ?ms\<rparr>\<rparr>"
    by (simp add: fake_client_def fake_index_def)
  have 2: "IndexManifest \<lparr>IndexManifest = Inr \<lparr>Manifests = ?ms\<rparr>\<rparr> = Inr \<lparr>Manifests = ?ms\<rparr>"
    by simp
  have 3: "Manifests \<lparr>Manifests = ?ms\<rparr> =
      fake_manifest None # [fake_manifest (Some (linux ''amd64''))]"
    by simp
  have 4: "Descriptor_Platform (fake_manifest None) = None"
    by (simp add: fake_manifest_def)
  have 5: "ParsePlatform ?env ''*/amd64'' =
      Inr \<lparr>Architecture = ''amd64'', OS = ''*'', OSVersion = [], OSFeatures = [],
           Variant = [], Features = []\<rparr>"
    by (simp add: fake_client_def fake_ParsePlatform_def)
  from parsePlatform_first_entry_without_platform [OF 0 1 2 3 4] 5
  show ?thesis by simp
qed

subsection \<open>Tags and digests\<close>

text \<open>
  Claim C6. For an image whose reference is a digest reference, and more generally
  whenever the reference has no tag, \<open>RepoTags\<close> is empty; for an image whose reference
  carries the tag \<open>t\<close> (a tag is a non-empty string), \<open>RepoTags\<close> is the one string made
  of the repository name, a colon and \<open>t\<close>.
\<close>

theorem RepoTags_tag_or_empty:
  "(iref img = \<lparr>ref = name_Digest repo d\<rparr> \<longrightarrow> RepoTags img = [])
   \<and> (iref img = \<lparr>ref = name_Tag repo t\<rparr> \<and> t \<noteq> [] \<longrightarrow>
        RepoTags img = [RepositoryName (iref img) @ '':'' @ t])
   \<and> (TagName (iref img) = [] \<longrightarrow> RepoTags img = [])"
  by (simp add: RepoTags_def TagName_def TagStr_def Let_def)

theorem RepoTags_tag_or_empty_witness:
  "RepoTags \<lparr>name = ''app'', iref = \<lparr>ref = team_app\<rparr>, descriptor = fake_descriptor,
             Image = (7::nat)\<rparr> = []
   \<and> RepoTags \<lparr>name = ''alpine:3.18'', iref = \<lparr>ref = alpine\<rparr>, descriptor = fake_descriptor,
               Image = (7::nat)\<rparr> = [''alpine:3.18'']"
  using
    RepoTags_tag_or_empty [of "\<lparr>name = ''app'', iref = \<lparr>ref = team_app\<rparr>,
        descriptor = fake_descriptor, Image = (7::nat)\<rparr>"
      "\<lparr>registry = ''myregistry.io'', repository = ''team/app''\<rparr>" "''sha256:abcd''"]
    RepoTags_tag_or_empty [of "\<lparr>name = ''alpine:3.18'', iref = \<lparr>ref = alpine\<rparr>,
        descriptor = fake_descriptor, Image = (7::nat)\<rparr>"
      "\<lparr>registry = ''index.docker.io'', repository = ''library/alpine''\<rparr>" _ "''3.18''"]
  by (simp add: team_app_def alpine_def RepositoryName_def RegistryStr_def RepositoryStr_def
      DefaultRegistry_def TrimPrefix_def HasPrefix_def Let_def)

text \<open>
  Claim C5. An image that the fetch returns has exactly one repo digest: the repository
  name of the reference, an \<open>@\<close> and the digest of the descriptor that \<^verbatim>\<open>remote.Get\<close>
  returned for this reference.
\<close>

theorem tryRemote_RepoDigests:
  assumes "tryRemote env imageName rf opt = (cs, Ok img)"
  shows "\<exists>opts desc. GetCall rf opts \<in> set cs \<and> remote_Get env rf opts = Inr desc
      \<and> RepoDigests img = [RepositoryName \<lparr>ref = rf\<rparr> @ ''@'' @ Hash_String (Digest desc)]"
proof (cases rule: tryRemote_cases [of opt env rf imageName])
  case (platform_error cs' err)
  with assms show ?thesis by simp
next
  case (no_constraint cs')
  with assms show ?thesis by simp
next
  case (fetch cs' pre)
  let ?opts = "pre @ [let auth = GetToken env (RegistryStr (Context rf)) opt
               in if Username auth \<noteq> [] \<and> Password auth \<noteq> []
                  then WithAuth (AuthBasic auth)
                  else if RegistryToken opt \<noteq> []
                       then WithAuth (AuthBearer \<lparr>Token = RegistryToken opt\<rparr>)
                       else WithAuthFromKeychain DefaultKeychain]"
  from fetch(2) assms obtain desc i where
    get: "remote_Get env rf ?opts = Inr desc" and
    cs: "cs = cs' @ [GetCall rf ?opts, ImageCall desc]" and
    img: "img = \<lparr>name = imageName, iref = \<lparr>ref = rf\<rparr>, descriptor = desc, Image = i\<rparr>"
    by (auto split: sum.splits)
  from img have "RepoDigests img = [RepositoryName \<lparr>ref = rf\<rparr> @ ''@'' @ Hash_String (Digest desc)]"
    by (simp add: RepoDigests_def)
  moreover from cs have "GetCall rf ?opts \<in> set cs"
    by simp
  ultimately show ?thesis
    using get by blast
qed

theorem tryRemote_RepoDigests_witness:
  "tryRemote (fake_client (Inl (ErrOther ''unused'')) (Inr fake_descriptor) (Inr 7))
      ''myregistry.io/team/app@sha256:abcd'' team_app (no_options \<lparr>RegistryToken := ''tok''\<rparr>)
    = ([GetCall team_app [WithAuth (AuthBearer \<lparr>Token = ''tok''\<rparr>)], ImageCall fake_descriptor],
       Ok \<lparr>name = ''myregistry.io/team/app@sha256:abcd'', iref = \<lparr>ref = team_app\<rparr>,
           descriptor = fake_descriptor, Image = 7\<rparr>)
   \<and> RepoDigests \<lparr>name = ''myregistry.io/team/app@sha256:abcd'', iref = \<lparr>ref = team_app\<rparr>,
           descriptor = fake_descriptor, Image = (7::nat)\<rparr>
     = [''myregistry.io/team/app@sha256:abcd'']"
proof -
  let ?env = "fake_client (Inl (ErrOther ''unused'')) (Inr fake_descriptor) (Inr 7)"
  let ?img = "\<lparr>name = ''myregistry.io/team/app@sha256:abcd'', iref = \<lparr>ref = team_app\<rparr>,
           descriptor = fake_descriptor, Image = (7::nat)\<rparr>"
  have run: "tryRemote ?env ''myregistry.io/team/app@sha256:abcd'' team_app
      (no_options \<lparr>RegistryToken := ''tok''\<rparr>)
    = ([GetCall team_app [WithAuth (AuthBearer \<lparr>Token = ''tok''\<rparr>)], ImageCall fake_descriptor],
       Ok ?img)"
    by (simp add: tryRemote_def fake_client_def no_options_def GetToken_spec_def Let_def)
  have name: "RepositoryName \<lparr>ref = team_app\<rparr> = ''myregistry.io/team/app''"
    by (simp add: RepositoryName_def team_app_def RegistryStr_def RepositoryStr_def
        DefaultRegistry_def Let_def)
  have digest: "Hash_String (Digest fake_descriptor) = ''sha256:abcd''"
    by (simp add: fake_descriptor_def Hash_String_def)
  from tryRemote_RepoDigests [OF run] name digest run show ?thesis
    by (simp add: fake_client_def)
qed

subsection \<open>Credentials\<close>



subsection \<open>Errors\<close>

text \<open>
  Claim C8, as amended. Every error the fetch returns is an error of the platform
  resolver, of \<^verbatim>\<open>remote.Get\<close> or of \<^verbatim>\<open>desc.Image\<close>. The errors of the platform resolver
  are wrapped behind the context of the operation that failed (\<open>remote index error\<close>,
  \<open>remote index manifest error\<close>, \<open>platform parse error\<close>) and the fetch returns them as
  they are; the errors of \<^verbatim>\<open>remote.Get\<close> and \<^verbatim>\<open>desc.Image\<close> are returned as the calls
  gave them, with no context added. No error is swallowed except in the not-multi-arch
  fallback: an error of \<^verbatim>\<open>remote.Index\<close> other than the legacy schema error, an error of
  \<^verbatim>\<open>index.IndexManifest\<close> and an error of \<^verbatim>\<open>v1.ParsePlatform\<close> each make the platform
  resolver return the wrapped error, which the fetch returns; when platform handling
  lets the fetch go on, an error of \<^verbatim>\<open>remote.Get\<close> and an error of \<^verbatim>\<open>desc.Image\<close> each
  are the error the fetch returns. The legacy schema error of \<^verbatim>\<open>remote.Index\<close> is the one
  error the platform resolver does not return.
\<close>

theorem tryRemote_error_propagation:
  "(snd (tryRemote env imageName rf opt) = Err e \<longrightarrow>
      (Platform opt \<noteq> [] \<and> snd (parsePlatform env rf (Platform opt)) = Inl e)
    \<or> (\<exists>opts. GetCall rf opts \<in> set (fst (tryRemote env imageName rf opt))
          \<and> remote_Get env rf opts = Inl e)
    \<or> (\<exists>desc. ImageCall desc \<in> set (fst (tryRemote env imageName rf opt))
          \<and> Descriptor_Image env desc = Inl e))
   \<and> (snd (parsePlatform env rf p) = Inl e \<longrightarrow>
        (\<exists>e'. e = Errorf ''remote index error: '' e' \<and> remote_Index env rf [] = Inl e')
      \<or> (\<exists>index e'. e = Errorf ''remote index manifest error: '' e'
            \<and> remote_Index env rf [] = Inr index \<and> IndexManifest index = Inl e')
      \<or> (\<exists>p' e'. e = Errorf ''platform parse error: '' e' \<and> ParsePlatform env p' = Inl e'))
   \<and> (Platform opt \<noteq> [] \<and> snd (parsePlatform env rf (Platform opt)) = Inl e \<longrightarrow>
        snd (tryRemote env imageName rf opt) = Err e)
   \<and> (GetCall rf opts \<in> set (fst (tryRemote env imageName rf opt))
        \<and> remote_Get env rf opts = Inl e \<longrightarrow>
        snd (tryRemote env imageName rf opt) = Err e)
   \<and> (ImageCall desc \<in> set (fst (tryRemote env imageName rf opt))
        \<and> Descriptor_Image env desc = Inl e \<longrightarrow>
        snd (tryRemote env imageName rf opt) = Err e)
   \<and> (HasPrefix p ''*/'' \<and> remote_Index env rf [] = Inl e \<and> (\<forall>msg. e \<noteq> ErrSchema1 msg) \<longrightarrow>
        snd (parsePlatform env rf p) = Inl (Errorf ''remote index error: '' e))
   \<and> (HasPrefix p ''*/'' \<and> remote_Index env rf [] = Inr index \<and> IndexManifest index = Inl e \<longrightarrow>
        snd (parsePlatform env rf p) = Inl (Errorf ''remote index manifest error: '' e))
   \<and> ((\<not> HasPrefix p ''*/'' \<and> p' = p
          \<or> HasPrefix p ''*/'' \<and> remote_Index env rf [] = Inr index \<and> IndexManifest index = Inr m
             \<and> Manifests m = m0 # ms
             \<and> p' = (case Descriptor_Platform m0 of
                        Some x \<Rightarrow> OS x @ TrimPrefix p ''*'' | None \<Rightarrow> p))
        \<and> ParsePlatform env p' = Inl e \<longrightarrow>
        snd (parsePlatform env rf p) = Inl (Errorf ''platform parse error: '' e))
   \<and> (HasPrefix p ''*/'' \<and> remote_Index env rf [] = Inl (ErrSchema1 msg) \<longrightarrow>
        snd (parsePlatform env rf p) = Inr None)
   \<and> ((Platform opt = [] \<and> cs = [] \<and> po = []
          \<or> Platform opt \<noteq> [] \<and> parsePlatform env rf (Platform opt) = (cs, Inr (Some s))
             \<and> po = [WithPlatform s])
        \<and> opts' =
          (if InsecureSkipTLSVerify opt
           then [WithTransport \<lparr>TLSClientConfig = \<lparr>InsecureSkipVerify = True\<rparr>\<rparr>] else [])
          @ po @
          [let auth = GetToken env (RegistryStr (Context rf)) opt
           in if Username auth \<noteq> [] \<and> Password auth \<noteq> [] then WithAuth (AuthBasic auth)
              else if RegistryToken opt \<noteq> []
                then WithAuth (AuthBearer \<lparr>Token = RegistryToken opt\<rparr>)
              else WithAuthFromKeychain DefaultKeychain]
        \<and> remote_Get env rf opts' = Inl e \<longrightarrow>
        tryRemote env imageName rf opt = (cs @ [GetCall rf opts'], Err e))
   \<and> ((Platform opt = [] \<and> cs = [] \<and> po = []
          \<or> Platform opt \<noteq> [] \<and> parsePlatform env rf (Platform opt) = (cs, Inr (Some s))
             \<and> po = [WithPlatform s])
        \<and> opts' =
          (if InsecureSkipTLSVerify opt
           then [WithTransport \<lparr>TLSClientConfig = \<lparr>InsecureSkipVerify = True\<rparr>\<rparr>] else [])
          @ po @
          [let auth = GetToken env (RegistryStr (Context rf)) opt
           in if Username auth \<noteq> [] \<and> Password auth \<noteq> [] then WithAuth (AuthBasic auth)
              else if RegistryToken opt \<noteq> []
                then WithAuth (AuthBearer \<lparr>Token = RegistryToken opt\<rparr>)
              else WithAuthFromKeychain DefaultKeychain]
        \<and> remote_Get env rf opts' = Inr d \<and> Descriptor_Image env d = Inl e \<longrightarrow>
        tryRemote env imageName rf opt = (cs @ [GetCall rf opts', ImageCall d], Err e))"
proof -
  let ?run = "tryRemote env imageName rf opt"
  let ?cred = "let auth = GetToken env (RegistryStr (Context rf)) opt
               in if Username auth \<noteq> [] \<and> Password auth \<noteq> []
                  then WithAuth (AuthBasic auth)
                  else if RegistryToken opt \<noteq> []
                       then WithAuth (AuthBearer \<lparr>Token = RegistryToken opt\<rparr>)
                       else WithAuthFromKeychain DefaultKeychain"
  have A: "(Platform opt \<noteq> [] \<and> snd (parsePlatform env rf (Platform opt)) = Inl e)
    \<or> (\<exists>opts. GetCall rf opts \<in> set (fst ?run) \<and> remote_Get env rf opts = Inl e)
    \<or> (\<exists>desc. ImageCall desc \<in> set (fst ?run) \<and> Descriptor_Image env desc = Inl e)"
    if err: "snd ?run = Err e"
  proof (cases rule: tryRemote_cases [of opt env rf imageName])
    case (platform_error cs err')
    with err show ?thesis by simp
  next
    case (no_constraint cs)
    with err show ?thesis by simp
  next
    case (fetch cs pre)
    show ?thesis
    proof (cases "remote_Get env rf (pre @ [?cred])")
      case (Inl err')
      with fetch(2) err have "GetCall rf (pre @ [?cred]) \<in> set (fst ?run)" "err' = e"
        by simp_all
      with Inl show ?thesis by blast
    next
      case (Inr d)
      with fetch(2) err have "ImageCall d \<in> set (fst ?run)" "Descriptor_Image env d = Inl e"
        by (simp_all split: sum.splits)
      then show ?thesis by blast
    qed
  qed
  have B: "snd ?run = Err e"
    if "Platform opt \<noteq> []" "snd (parsePlatform env rf (Platform opt)) = Inl e"
    using that tryRemote_platform_error [of opt env rf "fst (parsePlatform env rf (Platform opt))" e imageName]
    by (cases "parsePlatform env rf (Platform opt)") simp
  have shape: "\<exists>cs pre. set cs \<subseteq> {IndexCall rf []} \<and>
     ?run = (case remote_Get env rf (pre @ [?cred]) of
            Inl err \<Rightarrow> (cs @ [GetCall rf (pre @ [?cred])], Err err)
          | Inr desc \<Rightarrow>
              (case Descriptor_Image env desc of
                 Inl err \<Rightarrow> (cs @ [GetCall rf (pre @ [?cred]), ImageCall desc], Err err)
               | Inr img \<Rightarrow>
                   (cs @ [GetCall rf (pre @ [?cred]), ImageCall desc],
                    Ok \<lparr>name = imageName, iref = \<lparr>ref = rf\<rparr>,
                        descriptor = desc, Image = img\<rparr>)))"
    if "c \<in> set (fst ?run)" "\<forall>r os. c \<noteq> IndexCall r os" for c
  proof (cases rule: tryRemote_cases [of opt env rf imageName])
    case (platform_error cs err')
    with that parsePlatform_calls [of env rf "Platform opt"] show ?thesis
      by (auto split: if_splits)
  next
    case (no_constraint cs)
    with that parsePlatform_calls [of env rf "Platform opt"] show ?thesis
      by (auto split: if_splits)
  next
    case (fetch cs pre)
    from fetch(1) parsePlatform_calls [of env rf "Platform opt"]
    have "set cs \<subseteq> {IndexCall rf []}"
      by (auto split: if_splits)
    with fetch(2) show ?thesis by blast
  qed
  have C: "snd ?run = Err e"
    if "GetCall rf opts \<in> set (fst ?run)" "remote_Get env rf opts = Inl e"
  proof -
    from shape [OF that(1)] obtain cs pre where
      cs: "set cs \<subseteq> {IndexCall rf []}" and
      run: "?run = (case remote_Get env rf (pre @ [?cred]) of
            Inl err \<Rightarrow> (cs @ [GetCall rf (pre @ [?cred])], Err err)
          | Inr desc \<Rightarrow>
              (case Descriptor_Image env desc of
                 Inl err \<Rightarrow> (cs @ [GetCall rf (pre @ [?cred]), ImageCall desc], Err err)
               | Inr img \<Rightarrow>
                   (cs @ [GetCall rf (pre @ [?cred]), ImageCall desc],
                    Ok \<lparr>name = imageName, iref = \<lparr>ref = rf\<rparr>,
                        descriptor = desc, Image = img\<rparr>)))"
      by auto
    from tryRemote_fetch_shape [OF run] that(1) cs have "opts = pre @ [?cred]"
      by auto
    with tryRemote_fetch_shape [OF run] that(2) show ?thesis by simp
  qed
  have D: "snd ?run = Err e"
    if "ImageCall desc \<in> set (fst ?run)" "Descriptor_Image env desc = Inl e"
  proof -
    from shape [OF that(1)] obtain cs pre where
      cs: "set cs \<subseteq> {IndexCall rf []}" and
      run: "?run = (case remote_Get env rf (pre @ [?cred]) of
            Inl err \<Rightarrow> (cs @ [GetCall rf (pre @ [?cred])], Err err)
          | Inr desc \<Rightarrow>
              (case Descriptor_Image env desc of
                 Inl err \<Rightarrow> (cs @ [GetCall rf (pre @ [?cred]), ImageCall desc], Err err)
               | Inr img \<Rightarrow>
                   (cs @ [GetCall rf (pre @ [?cred]), ImageCall desc],
                    Ok \<lparr>name = imageName, iref = \<lparr>ref = rf\<rparr>,
                        descriptor = desc, Image = img\<rparr>)))"
      by auto
    show ?thesis
    proof (cases "remote_Get env rf (pre @ [?cred])")
      case (Inl err')
      with run that(1) cs show ?thesis by auto
    next
      case (Inr d)
      with run that(1) cs have "d = desc"
        by (auto split: sum.splits)
      with run Inr that(2) show ?thesis by simp
    qed
  qed
  have F: "HasPrefix p ''*/'' \<and> remote_Index env rf [] = Inl e \<and> (\<forall>msg. e \<noteq> ErrSchema1 msg) \<longrightarrow>
        snd (parsePlatform env rf p) = Inl (Errorf ''remote index error: '' e)"
  proof -
    have "(case e of ErrSchema1 msg \<Rightarrow> False | _ \<Rightarrow> True)" if "\<forall>msg. e \<noteq> ErrSchema1 msg"
      using that by (cases e) simp_all
    then show ?thesis
      using parsePlatform_index_error [of p env rf e] by auto
  qed
  have G: "HasPrefix p ''*/'' \<and> remote_Index env rf [] = Inr index \<and> IndexManifest index = Inl e \<longrightarrow>
        snd (parsePlatform env rf p) = Inl (Errorf ''remote index manifest error: '' e)"
    using parsePlatform_manifest_error [of p env rf index e] by auto
  have H: "(\<not> HasPrefix p ''*/'' \<and> p' = p
          \<or> HasPrefix p ''*/'' \<and> remote_Index env rf [] = Inr index \<and> IndexManifest index = Inr m
             \<and> Manifests m = m0 # ms
             \<and> p' = (case Descriptor_Platform m0 of
                        Some x \<Rightarrow> OS x @ TrimPrefix p ''*'' | None \<Rightarrow> p))
        \<and> ParsePlatform env p' = Inl e \<longrightarrow>
        snd (parsePlatform env rf p) = Inl (Errorf ''platform parse error: '' e)"
    using parsePlatform_plain [of p env rf] parsePlatform_first_os [of p env rf index m m0 ms]
      parsePlatform_nil_platform [of p env rf index m m0 ms]
    by (cases "Descriptor_Platform m0") auto
  have K: "HasPrefix p ''*/'' \<and> remote_Index env rf [] = Inl (ErrSchema1 msg) \<longrightarrow>
        snd (parsePlatform env rf p) = Inr None"
    using parsePlatform_schema1 [of p env rf msg] by auto
  have I: "(Platform opt = [] \<and> cs = [] \<and> po = []
          \<or> Platform opt \<noteq> [] \<and> parsePlatform env rf (Platform opt) = (cs, Inr (Some s))
             \<and> po = [WithPlatform s])
        \<and> opts' =
          (if InsecureSkipTLSVerify opt
           then [WithTransport \<lparr>TLSClientConfig = \<lparr>InsecureSkipVerify = True\<rparr>\<rparr>] else [])
          @ po @
          [let auth = GetToken env (RegistryStr (Context rf)) opt
           in if Username auth \<noteq> [] \<and> Password auth \<noteq> [] then WithAuth (AuthBasic auth)
              else if RegistryToken opt \<noteq> []
                then WithAuth (AuthBearer \<lparr>Token = RegistryToken opt\<rparr>)
              else WithAuthFromKeychain DefaultKeychain]
        \<and> remote_Get env rf opts' = Inl e \<longrightarrow>
        tryRemote env imageName rf opt = (cs @ [GetCall rf opts'], Err e)"
  proof (intro impI, elim conjE)
    assume pass: "Platform opt = [] \<and> cs = [] \<and> po = []
          \<or> Platform opt \<noteq> [] \<and> parsePlatform env rf (Platform opt) = (cs, Inr (Some s))
             \<and> po = [WithPlatform s]"
      and opts: "opts' =
          (if InsecureSkipTLSVerify opt
           then [WithTransport \<lparr>TLSClientConfig = \<lparr>InsecureSkipVerify = True\<rparr>\<rparr>] else [])
          @ po @ [?cred]"
      and get: "remote_Get env rf opts' = Inl e"
    from tryRemote_fetch_run [OF pass opts, of imageName] get
    show "tryRemote env imageName rf opt = (cs @ [GetCall rf opts'], Err e)"
      by simp
  qed
  have J: "(Platform opt = [] \<and> cs = [] \<and> po = []
          \<or> Platform opt \<noteq> [] \<and> parsePlatform env rf (Platform opt) = (cs, Inr (Some s))
             \<and> po = [WithPlatform s])
        \<and> opts' =
          (if InsecureSkipTLSVerify opt
           then [WithTransport \<lparr>TLSClientConfig = \<lparr>InsecureSkipVerify = True\<rparr>\<rparr>] else [])
          @ po @
          [let auth = GetToken env (RegistryStr (Context rf)) opt
           in if Username auth \<noteq> [] \<and> Password auth \<noteq> [] then WithAuth (AuthBasic auth)
              else if RegistryToken opt \<noteq> []
                then WithAuth (AuthBearer \<lparr>Token = RegistryToken opt\<rparr>)
              else WithAuthFromKeychain DefaultKeychain]
        \<and> remote_Get env rf opts' = Inr d \<and> Descriptor_Image env d = Inl e \<longrightarrow>
        tryRemote env imageName rf opt = (cs @ [GetCall rf opts', ImageCall d], Err e)"
  proof (intro impI, elim conjE)
    assume pass: "Platform opt = [] \<and> cs = [] \<and> po = []
          \<or> Platform opt \<noteq> [] \<and> parsePlatform env rf (Platform opt) = (cs, Inr (Some s))
             \<and> po = [WithPlatform s]"
      and opts: "opts' =
          (if InsecureSkipTLSVerify opt
           then [WithTransport \<lparr>TLSClientConfig = \<lparr>InsecureSkipVerify = True\<rparr>\<rparr>] else [])
          @ po @ [?cred]"
      and get: "remote_Get env rf opts' = Inr d" and img: "Descriptor_Image env d = Inl e"
    from tryRemote_fetch_run [OF pass opts, of imageName] get img
    show "tryRemote env imageName rf opt = (cs @ [GetCall rf opts', ImageCall d], Err e)"
      by simp
  qed
  have ABCD: "(snd ?run = Err e \<longrightarrow>
      (Platform opt \<noteq> [] \<and> snd (parsePlatform env rf (Platform opt)) = Inl e)
    \<or> (\<exists>opts. GetCall rf opts \<in> set (fst ?run) \<and> remote_Get env rf opts = Inl e)
    \<or> (\<exists>desc. ImageCall desc \<in> set (fst ?run) \<and> Descriptor_Image env desc = Inl e))
   \<and> (snd (parsePlatform env rf p) = Inl e \<longrightarrow>
        (\<exists>e'. e = Errorf ''remote index error: '' e' \<and> remote_Index env rf [] = Inl e')
      \<or> (\<exists>index e'. e = Errorf ''remote index manifest error: '' e'
            \<and> remote_Index env rf [] = Inr index \<and> IndexManifest index = Inl e')
      \<or> (\<exists>p' e'. e = Errorf ''platform parse error: '' e' \<and> ParsePlatform env p' = Inl e'))
   \<and> (Platform opt \<noteq> [] \<and> snd (parsePlatform env rf (Platform opt)) = Inl e \<longrightarrow>
        snd ?run = Err e)
   \<and> (GetCall rf opts \<in> set (fst ?run) \<and> remote_Get env rf opts = Inl e \<longrightarrow> snd ?run = Err e)
   \<and> (ImageCall desc \<in> set (fst ?run) \<and> Descriptor_Image env desc = Inl e \<longrightarrow>
        snd ?run = Err e)"
    using A B C D parsePlatform_errors [of env rf p e] by blast
  from ABCD F G H K I J show ?thesis
    by (intro conjI) (erule conjunct1 | erule conjunct2 | assumption | blast)+
qed

theorem tryRemote_error_propagation_witness:
  "tryRemote (fake_client (Inl (ErrOther ''unused'')) (Inl (ErrOther ''TOOMANYREQUESTS'')) (Inr 7))
      ''app'' team_app (no_options \<lparr>RegistryToken := ''tok''\<rparr>)
     = ([GetCall team_app [WithAuth (AuthBearer \<lparr>Token = ''tok''\<rparr>)]],
        Err (ErrOther ''TOOMANYREQUESTS''))
   \<and> tryRemote
        (fake_client (Inl (ErrOther ''unused'')) (Inr fake_descriptor) (Inl (ErrOther ''BLOB_UNKNOWN'')))
        ''app'' team_app (no_options \<lparr>RegistryToken := ''tok''\<rparr>)
     = ([GetCall team_app [WithAuth (AuthBearer \<lparr>Token = ''tok''\<rparr>)], ImageCall fake_descriptor],
        Err (ErrOther ''BLOB_UNKNOWN''))
   \<and> snd (tryRemote (fake_client (Inl (ErrOther ''DENIED'')) (Inr fake_descriptor) (Inr 7))
      ''app'' team_app (no_options \<lparr>Platform := ''*/amd64''\<rparr>))
     = Err (Errorf ''remote index error: '' (ErrOther ''DENIED''))
   \<and> snd (tryRemote
        (fake_client (Inr \<lparr>IndexManifest = Inl (ErrOther ''unexpected end of JSON input'')\<rparr>)
           (Inr fake_descriptor) (Inr 7))
      ''app'' team_app (no_options \<lparr>Platform := ''*/amd64''\<rparr>))
     = Err (Errorf ''remote index manifest error: '' (ErrOther ''unexpected end of JSON input''))
   \<and> snd (tryRemote
        (fake_client (fake_index [fake_manifest (Some (linux ''amd64''))]) (Inr fake_descriptor) (Inr 7))
      ''app'' team_app (no_options \<lparr>Platform := ''*/arm/v7/x''\<rparr>))
     = Err (Errorf ''platform parse error: '' (ErrOther ''too many slashes in platform spec: linux/arm/v7/x''))
   \<and> snd (tryRemote (fake_client (Inl (ErrOther ''unused'')) (Inr fake_descriptor) (Inr 7))
      ''app'' team_app (no_options \<lparr>Platform := ''linux/arm/v7/x''\<rparr>))
     = Err (Errorf ''platform parse error: '' (ErrOther ''too many slashes in platform spec: linux/arm/v7/x''))"
proof -
  let ?tok = "no_options \<lparr>RegistryToken := ''tok''\<rparr>"
  let ?opts = "[WithAuth (AuthBearer \<lparr>Token = ''tok''\<rparr>)]"
  let ?env1 = "fake_client (Inl (ErrOther ''unused'')) (Inl (ErrOther ''TOOMANYREQUESTS'')) (Inr 7)"
  let ?env2 = "fake_client (Inl (ErrOther ''unused'')) (Inr fake_descriptor) (Inl (ErrOther ''BLOB_UNKNOWN''))"
  let ?env3 = "fake_client (Inl (ErrOther ''DENIED'')) (Inr fake_descriptor) (Inr 7)"
  let ?bad = "\<lparr>IndexManifest = Inl (ErrOther ''unexpected end of JSON input'')\<rparr>"
  let ?env4 = "fake_client (Inr ?bad) (Inr fake_descriptor) (Inr 7)"
  let ?ms = "[fake_manifest (Some (linux ''amd64''))]"
  let ?env5 = "fake_client (fake_index ?ms) (Inr fake_descriptor) (Inr 7)"
  let ?env6 = "fake_client (Inl (ErrOther ''unused'')) (Inr fake_descriptor) (Inr 7)"
  let ?wild = "no_options \<lparr>Platform := ''*/amd64''\<rparr>"
  let ?wild4 = "no_options \<lparr>Platform := ''*/arm/v7/x''\<rparr>"
  let ?plain4 = "no_options \<lparr>Platform := ''linux/arm/v7/x''\<rparr>"
  let ?slashes = "ErrOther ''too many slashes in platform spec: linux/arm/v7/x''"
  have 1: "tryRemote ?env1 ''app'' team_app ?tok
      = ([] @ [GetCall team_app ?opts], Err (ErrOther ''TOOMANYREQUESTS''))"
    by (rule tryRemote_error_propagation [where env = ?env1 and imageName = "''app''"
        and rf = team_app and opt = ?tok and e = "ErrOther ''TOOMANYREQUESTS''"
        and cs = "[]" and po = "[]" and opts' = ?opts, THEN conjunct2, THEN conjunct2, THEN conjunct2, THEN conjunct2, THEN conjunct2, THEN conjunct2, THEN conjunct2, THEN conjunct2, THEN conjunct2, THEN conjunct1, THEN mp])
      (simp add: fake_client_def no_options_def GetToken_spec_def)
  have 2: "tryRemote ?env2 ''app'' team_app ?tok
      = ([] @ [GetCall team_app ?opts, ImageCall fake_descriptor], Err (ErrOther ''BLOB_UNKNOWN''))"
    by (rule tryRemote_error_propagation [where env = ?env2 and imageName = "''app''"
        and rf = team_app and opt = ?tok and e = "ErrOther ''BLOB_UNKNOWN''"
        and cs = "[]" and po = "[]" and opts' = ?opts and d = fake_descriptor, THEN conjunct2, THEN conjunct2, THEN conjunct2, THEN conjunct2, THEN conjunct2, THEN conjunct2, THEN conjunct2, THEN conjunct2, THEN conjunct2, THEN conjunct2, THEN mp])
      (simp add: fake_client_def no_options_def GetToken_spec_def)
  have p3: "snd (parsePlatform ?env3 team_app ''*/amd64'')
        = Inl (Errorf ''remote index error: '' (ErrOther ''DENIED''))"
    by (rule tryRemote_error_propagation [where env = ?env3 and rf = team_app
          and p = "''*/amd64''" and e = "ErrOther ''DENIED''", THEN conjunct2, THEN conjunct2, THEN conjunct2, THEN conjunct2, THEN conjunct2, THEN conjunct1, THEN mp])
      (simp add: fake_client_def HasPrefix_def)
  have 3: "snd (tryRemote ?env3 ''app'' team_app ?wild)
      = Err (Errorf ''remote index error: '' (ErrOther ''DENIED''))"
    by (rule tryRemote_error_propagation [where env = ?env3 and imageName = "''app''"
          and rf = team_app and opt = ?wild
          and e = "Errorf ''remote index error: '' (ErrOther ''DENIED'')", THEN conjunct2, THEN conjunct2, THEN conjunct1, THEN mp])
      (use p3 in \<open>simp add: no_options_def\<close>)
  have p4: "snd (parsePlatform ?env4 team_app ''*/amd64'')
        = Inl (Errorf ''remote index manifest error: '' (ErrOther ''unexpected end of JSON input''))"
    by (rule tryRemote_error_propagation [where env = ?env4 and rf = team_app
          and p = "''*/amd64''" and e = "ErrOther ''unexpected end of JSON input''"
          and index = ?bad, THEN conjunct2, THEN conjunct2, THEN conjunct2, THEN conjunct2, THEN conjunct2, THEN conjunct2, THEN conjunct1, THEN mp])
      (simp add: fake_client_def HasPrefix_def)
  have 4: "snd (tryRemote ?env4 ''app'' team_app ?wild)
      = Err (Errorf ''remote index manifest error: '' (ErrOther ''unexpected end of JSON input''))"
    by (rule tryRemote_error_propagation [where env = ?env4 and imageName = "''app''"
          and rf = team_app and opt = ?wild
          and e = "Errorf ''remote index manifest error: '' (ErrOther ''unexpected end of JSON input'')",
          THEN conjunct2, THEN conjunct2, THEN conjunct1, THEN mp])
      (use p4 in \<open>simp add: no_options_def\<close>)
  have p5: "snd (parsePlatform ?env5 team_app ''*/arm/v7/x'')
        = Inl (Errorf ''platform parse error: '' ?slashes)"
    by (rule tryRemote_error_propagation [where env = ?env5 and rf = team_app
          and p = "''*/arm/v7/x''" and e = ?slashes
          and index = "\<lparr>IndexManifest = Inr \<lparr>Manifests = ?ms\<rparr>\<rparr>"
          and m = "\<lparr>Manifests = ?ms\<rparr>" and ?m0.0 = "fake_manifest (Some (linux ''amd64''))"
          and ms = "[]" and p' = "''linux/arm/v7/x''", THEN conjunct2, THEN conjunct2, THEN conjunct2, THEN conjunct2, THEN conjunct2, THEN conjunct2, THEN conjunct2, THEN conjunct1, THEN mp])
      (simp add: fake_client_def fake_index_def fake_manifest_def fake_ParsePlatform_def
          linux_def TrimPrefix_def HasPrefix_def)
  have 5: "snd (tryRemote ?env5 ''app'' team_app ?wild4)
      = Err (Errorf ''platform parse error: '' ?slashes)"
    by (rule tryRemote_error_propagation [where env = ?env5 and imageName = "''app''"
          and rf = team_app and opt = ?wild4
          and e = "Errorf ''platform parse error: '' ?slashes", THEN conjunct2, THEN conjunct2, THEN conjunct1, THEN mp])
      (use p5 in \<open>simp add: no_options_def\<close>)
  have p6: "snd (parsePlatform ?env6 team_app ''linux/arm/v7/x'')
        = Inl (Errorf ''platform parse error: '' ?slashes)"
    by (rule tryRemote_error_propagation [where env = ?env6 and rf = team_app
          and p = "''linux/arm/v7/x''" and e = ?slashes and p' = "''linux/arm/v7/x''", THEN conjunct2, THEN conjunct2, THEN conjunct2, THEN conjunct2, THEN conjunct2, THEN conjunct2, THEN conjunct2, THEN conjunct1, THEN mp])
      (simp add: fake_client_def fake_ParsePlatform_def HasPrefix_def)
  have 6: "snd (tryRemote ?env6 ''app'' team_app ?plain4)
      = Err (Errorf ''platform parse error: '' ?slashes)"
    by (rule tryRemote_error_propagation [where env = ?env6 and imageName = "''app''"
          and rf = team_app and opt = ?plain4
          and e = "Errorf ''platform parse error: '' ?slashes", THEN conjunct2, THEN conjunct2, THEN conjunct1, THEN mp])
      (use p6 in \<open>simp add: no_options_def\<close>)
  from 1 2 3 4 5 6 show ?thesis by simp
qed

text \<open>
  Claim C8 as it is written has every returned error wrapped. The error of a failed
  \<^verbatim>\<open>remote.Get\<close> and the error of a failed \<^verbatim>\<open>desc.Image\<close> reach the caller bare.
\<close>

theorem tryRemote_error_wrapping_counterexample:
  "remote_Get (fake_client (Inl (ErrOther ''unused'')) (Inl (ErrOther ''UNAUTHORIZED'')) (Inr 7))
      alpine [WithAuthFromKeychain DefaultKeychain] = Inl (ErrOther ''UNAUTHORIZED'')
   \<and> tryRemote (fake_client (Inl (ErrOther ''unused'')) (Inl (ErrOther ''UNAUTHORIZED'')) (Inr 7))
      ''alpine:3.18'' alpine no_options
     = ([GetCall alpine [WithAuthFromKeychain DefaultKeychain]], Err (ErrOther ''UNAUTHORIZED''))
   \<and> Descriptor_Image
        (fake_client (Inl (ErrOther ''unused'')) (Inr fake_descriptor) (Inl (ErrOther ''MANIFEST_UNKNOWN'')))
        fake_descriptor = Inl (ErrOther ''MANIFEST_UNKNOWN'')
   \<and> tryRemote
        (fake_client (Inl (ErrOther ''unused'')) (Inr fake_descriptor) (Inl (ErrOther ''MANIFEST_UNKNOWN'')))
        ''alpine:3.18'' alpine no_options
     = ([GetCall alpine [WithAuthFromKeychain DefaultKeychain], ImageCall fake_descriptor],
        Err (ErrOther ''MANIFEST_UNKNOWN''))"
  by (simp add: fake_simps)

subsection \<open>Platform resolution and the connection options\<close>

text \<open>
  Claim C10. The index fetch is made with the reference alone, without any option. Two
  fetches of the same reference whose option bundles agree on \<open>Platform\<close>, and differ in
  credentials or in the TLS flag, make the same index fetch and give \<^verbatim>\<open>remote.Get\<close> the
  same platform constraints; when platform handling stops the fetch before
  \<^verbatim>\<open>remote.Get\<close>, both fetches end in the same way.
\<close>

theorem tryRemote_platform_ignores_credentials:
  fixes env :: "'img registry_client"
  assumes "Platform opt = Platform opt'"
  shows "(IndexCall r os \<in> set (fst (tryRemote env imageName rf opt)) \<longrightarrow> r = rf \<and> os = [])
    \<and> (IndexCall rf [] \<in> set (fst (tryRemote env imageName rf opt)) \<longleftrightarrow>
        IndexCall rf [] \<in> set (fst (tryRemote env imageName rf opt')))
    \<and> ((\<exists>opts. GetCall rf opts \<in> set (fst (tryRemote env imageName rf opt))
              \<and> WithPlatform pl \<in> set opts) \<longleftrightarrow>
        (\<exists>opts. GetCall rf opts \<in> set (fst (tryRemote env imageName rf opt'))
              \<and> WithPlatform pl \<in> set opts))
    \<and> ((\<forall>opts. GetCall rf opts \<notin> set (fst (tryRemote env imageName rf opt))) \<longrightarrow>
        tryRemote env imageName rf opt = tryRemote env imageName rf opt')"
proof (cases "Platform opt = [] \<or> (\<exists>s. snd (parsePlatform env rf (Platform opt)) = Inr (Some s))")
  case True
  let ?cs = "if Platform opt = [] then [] else fst (parsePlatform env rf (Platform opt))"
  from True assms
  have True': "Platform opt' = [] \<or> (\<exists>s. snd (parsePlatform env rf (Platform opt')) = Inr (Some s))"
    by simp
  from tryRemote_platform_options [OF True, of imageName] obtain opts tl where
    run: "fst (tryRemote env imageName rf opt) = ?cs @ GetCall rf opts # tl" and
    tl: "tl = [] \<or> (\<exists>desc. tl = [ImageCall desc])" and
    pl: "\<forall>pl. WithPlatform pl \<in> set opts \<longleftrightarrow>
          Platform opt \<noteq> [] \<and> snd (parsePlatform env rf (Platform opt)) = Inr (Some pl)"
    by blast
  from tryRemote_platform_options [OF True', of imageName] assms obtain opts' tl' where
    run': "fst (tryRemote env imageName rf opt') = ?cs @ GetCall rf opts' # tl'" and
    tl': "tl' = [] \<or> (\<exists>desc. tl' = [ImageCall desc])" and
    pl': "\<forall>pl. WithPlatform pl \<in> set opts' \<longleftrightarrow>
          Platform opt \<noteq> [] \<and> snd (parsePlatform env rf (Platform opt)) = Inr (Some pl)"
    by auto
  have cs: "set ?cs \<subseteq> {IndexCall rf []}"
    by (auto simp add: parsePlatform_calls)
  have 1: "IndexCall r os \<in> set (fst (tryRemote env imageName rf opt)) \<longrightarrow> r = rf \<and> os = []"
    using run tl cs by auto
  have 2: "IndexCall rf [] \<in> set (fst (tryRemote env imageName rf opt)) \<longleftrightarrow>
        IndexCall rf [] \<in> set (fst (tryRemote env imageName rf opt'))"
    using run run' tl tl' by auto
  have g: "GetCall rf x \<in> set (fst (tryRemote env imageName rf opt)) \<longleftrightarrow> x = opts" for x
    using run tl cs by auto
  have g': "GetCall rf x \<in> set (fst (tryRemote env imageName rf opt')) \<longleftrightarrow> x = opts'" for x
    using run' tl' cs by auto
  have 3: "(\<exists>opts. GetCall rf opts \<in> set (fst (tryRemote env imageName rf opt))
              \<and> WithPlatform pl \<in> set opts) \<longleftrightarrow>
        (\<exists>opts. GetCall rf opts \<in> set (fst (tryRemote env imageName rf opt'))
              \<and> WithPlatform pl \<in> set opts)"
    using g g' pl pl' by simp
  have 4: "\<not> (\<forall>opts. GetCall rf opts \<notin> set (fst (tryRemote env imageName rf opt)))"
    using g by simp
  from 1 2 3 4 show ?thesis by blast
next
  case False
  then have f: "Platform opt \<noteq> []" "\<forall>s. snd (parsePlatform env rf (Platform opt)) \<noteq> Inr (Some s)"
    by auto
  with assms have f': "Platform opt' \<noteq> []"
      "\<forall>s. snd (parsePlatform env rf (Platform opt')) \<noteq> Inr (Some s)"
    by auto
  from tryRemote_platform_failure [OF f, of imageName] tryRemote_platform_failure [OF f', of imageName]
    assms
  have same: "tryRemote env imageName rf opt = tryRemote env imageName rf opt'"
    by simp
  from tryRemote_platform_failure [OF f, of imageName]
  have "fst (tryRemote env imageName rf opt) = fst (parsePlatform env rf (Platform opt))"
    by simp
  then have 1: "IndexCall r os \<in> set (fst (tryRemote env imageName rf opt)) \<longrightarrow> r = rf \<and> os = []"
    by (auto simp add: parsePlatform_calls split: if_splits)
  from same 1 show ?thesis by simp
qed

theorem tryRemote_platform_ignores_credentials_witness:
  "fst (tryRemote
      (fake_client (fake_index [fake_manifest (Some (linux ''amd64''))]) (Inr fake_descriptor) (Inr 7))
      ''alpine:3.18'' alpine (no_options \<lparr>Platform := ''*/arm64''\<rparr>))
    = [IndexCall alpine [],
       GetCall alpine [WithPlatform (linux ''arm64''), WithAuthFromKeychain DefaultKeychain],
       ImageCall fake_descriptor]
   \<and> fst (tryRemote
      (fake_client (fake_index [fake_manifest (Some (linux ''amd64''))]) (Inr fake_descriptor) (Inr 7))
      ''alpine:3.18'' alpine
      (no_options \<lparr>opt_Username := ''user'', opt_Password := ''secret'', RegistryToken := ''tok'',
         InsecureSkipTLSVerify := True, Platform := ''*/arm64''\<rparr>))
    = [IndexCall alpine [],
       GetCall alpine [WithTransport \<lparr>TLSClientConfig = \<lparr>InsecureSkipVerify = True\<rparr>\<rparr>,
         WithPlatform (linux ''arm64''),
         WithAuth (AuthBasic \<lparr>Username = ''user'', Password = ''secret''\<rparr>)],
       ImageCall fake_descriptor]"
proof -
  let ?env = "fake_client (fake_index [fake_manifest (Some (linux ''amd64''))]) (Inr fake_descriptor) (Inr 7)"
  let ?opt = "no_options \<lparr>Platform := ''*/arm64''\<rparr>"
  let ?opt' = "no_options \<lparr>opt_Username := ''user'', opt_Password := ''secret'',
         RegistryToken := ''tok'', InsecureSkipTLSVerify := True, Platform := ''*/arm64''\<rparr>"
  have same: "Platform ?opt = Platform ?opt'"
    by simp
  have run: "fst (tryRemote ?env ''alpine:3.18'' alpine ?opt)
    = [IndexCall alpine [],
       GetCall alpine [WithPlatform (linux ''arm64''), WithAuthFromKeychain DefaultKeychain],
       ImageCall fake_descriptor]"
    by (simp add: fake_simps)
  have run': "fst (tryRemote ?env ''alpine:3.18'' alpine ?opt')
    = [IndexCall alpine [],
       GetCall alpine [WithTransport \<lparr>TLSClientConfig = \<lparr>InsecureSkipVerify = True\<rparr>\<rparr>,
         WithPlatform (linux ''arm64''),
         WithAuth (AuthBasic \<lparr>Username = ''user'', Password = ''secret''\<rparr>)],
       ImageCall fake_descriptor]"
    by (simp add: fake_simps)
  from tryRemote_platform_ignores_credentials [OF same, of alpine "[]" ?env "''alpine:3.18''" alpine
      "linux ''arm64''"] run run'
  show ?thesis by simp
qed

end
